theory Spec2Isabelle
  imports Complex_Main
begin

section \<open>Data model\<close>

text \<open>
  The request and response classes of \<^verbatim>\<open>main.py\<close> are records with the fields of the
  source. Several classes share a field name, so a field is written with its record
  (\<open>ProductListItem.name\<close>) wherever the record last declared is not the one meant. The fields
  \<^verbatim>\<open>id\<close>, \<^verbatim>\<open>size\<close> and \<^verbatim>\<open>total\<close> carry a prime, since HOL has constants of these names,
  and the query parameters \<^verbatim>\<open>name\<close>, \<^verbatim>\<open>size\<close>, \<^verbatim>\<open>limit\<close> and \<^verbatim>\<open>offset\<close> are written
  \<open>name_q\<close>, \<open>size_q\<close>, \<open>limit_q\<close> and \<open>offset_q\<close>, since \<open>name\<close> and \<open>limit\<close> are fields.

  Python's \<^verbatim>\<open>float\<close> is idealised as \<open>real\<close>: rounding is not modelled. Python's \<^verbatim>\<open>int\<close> is
  \<open>int\<close>. Time stamps are natural numbers handed in by the caller.
\<close>

type_synonym timestamp = nat

record Size =
  size' :: string
  quantity :: int

record ProductCreate =
  name :: string
  price :: real
  sizes :: "Size list"

record ProductResponse =
  id' :: string

record ProductListItem =
  id' :: string
  name :: string
  price :: real

record PaginationInfo =
  "next" :: "string option"
  limit :: int
  previous :: "int option"

record ProductListResponse =
  data :: "ProductListItem list"
  page :: PaginationInfo

record OrderItem =
  productId :: string
  qty :: int

record OrderCreate =
  userId :: string
  items :: "OrderItem list"

record OrderResponse =
  id' :: string

record ProductDetails =
  name :: string
  id' :: string

record OrderItemWithDetails =
  productDetails :: ProductDetails
  qty :: int

record OrderListItem =
  id' :: string
  items :: "OrderItemWithDetails list"
  total' :: real

record OrderListResponse =
  data :: "OrderListItem list"
  page :: PaginationInfo

text \<open>
  The documents of the two collections. A collection is the list of its documents in
  ascending order of the store's own \<^verbatim>\<open>_id\<close>, which is the order of insertion; the
  \<^verbatim>\<open>sort("_id", 1)\<close> of both list operations is therefore the order of the list.
\<close>

record product_doc =
  id' :: string
  name :: string
  price :: real
  sizes :: "Size list"
  created_at :: timestamp
  updated_at :: timestamp

record order_doc =
  id' :: string
  userId :: string
  items :: "OrderItem list"
  total' :: real
  created_at :: timestamp
  updated_at :: timestamp

record database =
  products_collection :: "product_doc list"
  orders_collection :: "order_doc list"

text \<open>
  Errors are values. The \<^verbatim>\<open>detail\<close> of an \<^verbatim>\<open>HTTPException\<close> is kept structured: the list
  of missing ids is the list the source formats into the message, and the text of a wrapped
  exception is dropped. A request whose \<^verbatim>\<open>limit\<close> or \<^verbatim>\<open>offset\<close> violates the bounds
  declared with \<^verbatim>\<open>Query(..., ge=, le=)\<close> is refused before the handler runs.
\<close>

datatype detail =
  Error_creating_product
  | Error_listing_products
  | Products_not_found "string list"
  | Error_creating_order
  | Error_listing_orders

datatype error =
  HTTPException int detail
  | RequestValidationError

text \<open>
  The value of a response field on the wire: a \<^verbatim>\<open>str\<close> field is a JSON string, an
  \<^verbatim>\<open>int\<close> field a JSON number, \<^verbatim>\<open>None\<close> is \<^verbatim>\<open>null\<close>.
\<close>

datatype json = JNull | JNumber int | JString string

definition next_json :: "PaginationInfo \<Rightarrow> json" where
  "next_json p = (case PaginationInfo.next p of None \<Rightarrow> JNull | Some s \<Rightarrow> JString s)"

definition previous_json :: "PaginationInfo \<Rightarrow> json" where
  "previous_json p = (case previous p of None \<Rightarrow> JNull | Some n \<Rightarrow> JNumber n)"

section \<open>Library functions the handlers call\<close>

text \<open>Python's \<^verbatim>\<open>str\<close> on an integer: the decimal digits, with a minus sign when negative.\<close>

definition digit_char :: "nat \<Rightarrow> char" where
  "digit_char d = ''0123456789'' ! d"

fun str_nat :: "nat \<Rightarrow> string" where
  "str_nat n = (if n < 10 then [digit_char n] else str_nat (n div 10) @ [digit_char (n mod 10)])"

declare str_nat.simps [simp del]

definition str_int :: "int \<Rightarrow> string" where
  "str_int i = (if i < 0 then CHR ''-'' # str_nat (nat (- i)) else str_nat (nat i))"

text \<open>Reading a decimal numeral back, to say what number a string of digits denotes.\<close>

definition digit_val :: "char \<Rightarrow> nat" where
  "digit_val c = of_char c - 48"

definition nat_of_digits :: "string \<Rightarrow> nat" where
  "nat_of_digits s = foldl (\<lambda>acc c. 10 * acc + digit_val c) 0 s"

text \<open>
  Python's \<^verbatim>\<open>re.escape\<close> (CPython 3.7 and later): a backslash goes before each of the
  characters \<^verbatim>\<open>()[]{}?*+-|^$\.&~#\<close>, the space, and tab, newline, carriage return,
  vertical tab and form feed; every other character is kept.
\<close>

definition special_chars :: "char list" where
  "special_chars = ''()[]{}?*+-|^$.&~# '' @ [CHR 0x5C, CHR 0x09, CHR 0x0A, CHR 0x0D, CHR 0x0B, CHR 0x0C]"

definition re_escape :: "string \<Rightarrow> string" where
  "re_escape pattern = concat (map (\<lambda>c. if c \<in> set special_chars then [CHR 0x5C, c] else [c]) pattern)"


text \<open>Containment of one text in another, and the same after folding ASCII letters to lower case.\<close>

fun startswith :: "string \<Rightarrow> string \<Rightarrow> bool" where
  "startswith s [] = True"
| "startswith [] (d # ds) = False"
| "startswith (c # cs) (d # ds) = (c = d \<and> startswith cs ds)"

fun contains :: "string \<Rightarrow> string \<Rightarrow> bool" where
  "contains [] sub = (sub = [])"
| "contains (c # cs) sub = (startswith (c # cs) sub \<or> contains cs sub)"

definition lower_char :: "char \<Rightarrow> char" where
  "lower_char c = (let n = (of_char c :: nat) in if 65 \<le> n \<and> n \<le> 90 then char_of (n + 32) else c)"

definition icontains :: "string \<Rightarrow> string \<Rightarrow> bool" where
  "icontains text s = contains (map lower_char s) (map lower_char text)"

section \<open>The document store\<close>

text \<open>
  The store evaluates the queries; it is not part of the repository. Its operations are
  modelled as far as the handlers use them, and they do not fail, with one exception: a
  pattern that the store's pattern engine does not accept makes the query raise. The engine
  is a parameter \<open>rx\<close> of the model: \<open>rx pattern options\<close> is the compiled matcher, or
  \<open>None\<close> when the pattern does not compile.

  \<^verbatim>\<open>filter_query\<close> of \<^verbatim>\<open>list_products\<close> is a dictionary with at most the keys \<^verbatim>\<open>name\<close>
  (holding \<^verbatim>\<open>{"$regex": pattern, "$options": options}\<close>) and \<^verbatim>\<open>sizes.size\<close> (holding a
  text). A document matches when it meets every condition present; a condition on
  \<^verbatim>\<open>sizes.size\<close> is met when some entry of the array \<^verbatim>\<open>sizes\<close> has that \<^verbatim>\<open>size\<close>.
\<close>

type_synonym regex_engine = "string \<Rightarrow> string \<Rightarrow> (string \<Rightarrow> bool) option"

record filter_query =
  fq_name :: "(string \<times> string) option"
  fq_sizes_size :: "string option"

definition sizes_size_matches :: "string option \<Rightarrow> product_doc \<Rightarrow> bool" where
  "sizes_size_matches cond p =
     (case cond of None \<Rightarrow> True | Some s \<Rightarrow> s \<in> set (map size' (product_doc.sizes p)))"

definition compile_query :: "regex_engine \<Rightarrow> filter_query \<Rightarrow> (product_doc \<Rightarrow> bool) option" where
  "compile_query rx fq =
     (case fq_name fq of
        None \<Rightarrow> Some (\<lambda>p. sizes_size_matches (fq_sizes_size fq) p)
      | Some (pattern, options) \<Rightarrow>
          (case rx pattern options of
             None \<Rightarrow> None
           | Some m \<Rightarrow> Some (\<lambda>p. m (product_doc.name p) \<and> sizes_size_matches (fq_sizes_size fq) p)))"

definition count_documents :: "regex_engine \<Rightarrow> product_doc list \<Rightarrow> filter_query \<Rightarrow> nat option" where
  "count_documents rx coll fq = map_option (\<lambda>m. length (filter m coll)) (compile_query rx fq)"

definition find_docs :: "regex_engine \<Rightarrow> product_doc list \<Rightarrow> filter_query \<Rightarrow> product_doc list option" where
  "find_docs rx coll fq = map_option (\<lambda>m. filter m coll) (compile_query rx fq)"

definition skip_limit :: "int \<Rightarrow> int \<Rightarrow> 'a list \<Rightarrow> 'a list" where
  "skip_limit offset_q limit_q docs = take (nat limit_q) (drop (nat offset_q) docs)"

definition find_one :: "product_doc list \<Rightarrow> string \<Rightarrow> product_doc option" where
  "find_one coll pid = List.find (\<lambda>p. product_doc.id' p = pid) coll"

definition insert_one :: "'a list \<Rightarrow> 'a \<Rightarrow> 'a list" where
  "insert_one coll doc = coll @ [doc]"

section \<open>The handlers\<close>

subsection \<open>Pagination block\<close>

text \<open>
  Lines 170 to 177 of \<^verbatim>\<open>list_products\<close> and lines 288 to 295 of \<^verbatim>\<open>list_orders\<close> are the
  same computation; \<open>n\<close> is the length of the list that is returned.
\<close>

definition pagination :: "int \<Rightarrow> int \<Rightarrow> int \<Rightarrow> nat \<Rightarrow> PaginationInfo" where
  "pagination offset_q limit_q total_count n =
     (let next_offset = (if offset_q + limit_q < total_count then Some (offset_q + limit_q) else None);
          previous_offset = (if offset_q > 0 then Some (offset_q - limit_q) else None)
      in \<lparr> next = (case next_offset of Some v \<Rightarrow> Some (str_int v) | None \<Rightarrow> None),
           limit = int n,
           previous = (case previous_offset of Some v \<Rightarrow> Some v | None \<Rightarrow> None) \<rparr>)"

subsection \<open>Create product\<close>

text \<open>The identifier drawn by \<^verbatim>\<open>uuid.uuid4\<close> and the two readings of the clock are arguments.\<close>

definition create_product ::
  "database \<Rightarrow> string \<Rightarrow> timestamp \<Rightarrow> timestamp \<Rightarrow> ProductCreate \<Rightarrow> error + (database \<times> ProductResponse)" where
  "create_product db product_id now1 now2 product =
     (let product_doc = \<lparr> product_doc.id' = product_id,
                           name = ProductCreate.name product,
                           price = ProductCreate.price product,
                           sizes = ProductCreate.sizes product,
                           created_at = now1,
                           updated_at = now2 \<rparr>
      in Inr (db\<lparr>products_collection := insert_one (products_collection db) product_doc\<rparr>,
              \<lparr> ProductResponse.id' = product_id \<rparr>))"

subsection \<open>List products\<close>

text \<open>
  The \<^verbatim>\<open>try\<close> block of lines 145 to 149 only stores a dictionary, which cannot raise
  \<^verbatim>\<open>re.error\<close>: the pattern is compiled later, by the store. The \<^verbatim>\<open>except\<close> branch is kept
  as \<open>escaped_condition\<close>.
\<close>

datatype re_error = Re_error

definition regex_condition :: "string \<Rightarrow> re_error + (string \<times> string)" where
  "regex_condition name_q = Inr (name_q, ''i'')"

definition escaped_condition :: "string \<Rightarrow> string \<times> string" where
  "escaped_condition name_q = (re_escape name_q, ''i'')"

definition name_condition :: "string \<Rightarrow> string \<times> string" where
  "name_condition name_q =
     (case regex_condition name_q of Inr c \<Rightarrow> c | Inl Re_error \<Rightarrow> escaped_condition name_q)"

text \<open>\<^verbatim>\<open>if name:\<close> holds for a text that is given and not empty.\<close>

definition build_filter_query :: "string option \<Rightarrow> string option \<Rightarrow> filter_query" where
  "build_filter_query name_q size_q =
     (let filter_query = \<lparr> fq_name = None, fq_sizes_size = None \<rparr>;
          filter_query =
            (case name_q of
               Some n \<Rightarrow> if n \<noteq> [] then filter_query\<lparr>fq_name := Some (name_condition n)\<rparr> else filter_query
             | None \<Rightarrow> filter_query);
          filter_query =
            (case size_q of
               Some s \<Rightarrow> if s \<noteq> [] then filter_query\<lparr>fq_sizes_size := Some s\<rparr> else filter_query
             | None \<Rightarrow> filter_query)
      in filter_query)"

definition product_list_item :: "product_doc \<Rightarrow> ProductListItem" where
  "product_list_item product =
     \<lparr> ProductListItem.id' = product_doc.id' product,
       name = product_doc.name product,
       price = product_doc.price product \<rparr>"

definition run_list_products ::
  "regex_engine \<Rightarrow> database \<Rightarrow> filter_query \<Rightarrow> int \<Rightarrow> int \<Rightarrow> error + ProductListResponse" where
  "run_list_products rx db filter_query limit_q offset_q =
     (case count_documents rx (products_collection db) filter_query of
        None \<Rightarrow> Inl (HTTPException 500 Error_listing_products)
      | Some total_count \<Rightarrow>
          (case find_docs rx (products_collection db) filter_query of
             None \<Rightarrow> Inl (HTTPException 500 Error_listing_products)
           | Some found \<Rightarrow>
               (let products = map product_list_item (skip_limit offset_q limit_q found)
                in Inr \<lparr> ProductListResponse.data = products,
                         page = pagination offset_q limit_q (int total_count) (length products) \<rparr>)))"

definition list_products ::
  "regex_engine \<Rightarrow> database \<Rightarrow> string option \<Rightarrow> string option \<Rightarrow> int \<Rightarrow> int \<Rightarrow> error + ProductListResponse" where
  "list_products rx db name_q size_q limit_q offset_q =
     (if 1 \<le> limit_q \<and> limit_q \<le> 100 \<and> 0 \<le> offset_q
      then run_list_products rx db (build_filter_query name_q size_q) limit_q offset_q
      else Inl RequestValidationError)"

subsection \<open>Create order\<close>

text \<open>
  The loop of lines 212 to 215. \<^verbatim>\<open>next(...)\<close> on a generator that yields nothing raises
  \<^verbatim>\<open>StopIteration\<close>, which the handler wraps into status 500.
\<close>

fun order_total :: "product_doc list \<Rightarrow> OrderItem list \<Rightarrow> real \<Rightarrow> error + real" where
  "order_total existing_products [] running_total = Inr running_total"
| "order_total existing_products (item # rest) running_total =
     (case List.find (\<lambda>p. product_doc.id' p = productId item) existing_products of
        None \<Rightarrow> Inl (HTTPException 500 Error_creating_order)
      | Some product \<Rightarrow>
          order_total existing_products rest (running_total + product_doc.price product * real_of_int (OrderItem.qty item)))"

definition create_order ::
  "database \<Rightarrow> string \<Rightarrow> timestamp \<Rightarrow> timestamp \<Rightarrow> OrderCreate \<Rightarrow> error + (database \<times> OrderResponse)" where
  "create_order db order_id now1 now2 order =
     (let product_ids = map productId (OrderCreate.items order);
          existing_products = filter (\<lambda>p. product_doc.id' p \<in> set product_ids) (products_collection db)
      in if length existing_products \<noteq> length product_ids
         then (let existing_ids = map product_doc.id' existing_products;
                   missing_ids = filter (\<lambda>pid. pid \<notin> set existing_ids) product_ids
               in Inl (HTTPException 400 (Products_not_found missing_ids)))
         else (case order_total existing_products (OrderCreate.items order) 0 of
                 Inl e \<Rightarrow> Inl e
               | Inr order_sum \<Rightarrow>
                   (let order_doc = \<lparr> order_doc.id' = order_id,
                                      userId = OrderCreate.userId order,
                                      items = OrderCreate.items order,
                                      total' = order_sum,
                                      created_at = now1,
                                      updated_at = now2 \<rparr>
                    in Inr (db\<lparr>orders_collection := insert_one (orders_collection db) order_doc\<rparr>,
                            \<lparr> OrderResponse.id' = order_id \<rparr>))))"

subsection \<open>List orders\<close>

text \<open>The inner loop of lines 267 to 279: an item whose product is not found adds nothing.\<close>

fun order_items_loop ::
  "product_doc list \<Rightarrow> OrderItem list \<Rightarrow> OrderItemWithDetails list \<Rightarrow> OrderItemWithDetails list" where
  "order_items_loop coll [] order_items = order_items"
| "order_items_loop coll (item # rest) order_items =
     (case find_one coll (productId item) of
        Some product \<Rightarrow>
          order_items_loop coll rest
            (order_items @
               [\<lparr> productDetails = \<lparr> ProductDetails.name = product_doc.name product,
                                     id' = product_doc.id' product \<rparr>,
                  qty = OrderItem.qty item \<rparr>])
      | None \<Rightarrow> order_items_loop coll rest order_items)"

definition order_list_item :: "product_doc list \<Rightarrow> order_doc \<Rightarrow> OrderListItem" where
  "order_list_item coll order =
     \<lparr> OrderListItem.id' = order_doc.id' order,
       items = order_items_loop coll (order_doc.items order) [],
       total' = order_doc.total' order \<rparr>"

definition list_orders :: "database \<Rightarrow> string \<Rightarrow> int \<Rightarrow> int \<Rightarrow> error + OrderListResponse" where
  "list_orders db user_id limit_q offset_q =
     (if 1 \<le> limit_q \<and> limit_q \<le> 100 \<and> 0 \<le> offset_q
      then (let found = filter (\<lambda>order. order_doc.userId order = user_id) (orders_collection db);
                total_count = length found;
                orders = map (order_list_item (products_collection db)) (skip_limit offset_q limit_q found)
            in Inr \<lparr> OrderListResponse.data = orders,
                     page = pagination offset_q limit_q (int total_count) (length orders) \<rparr>)
      else Inl RequestValidationError)"

section \<open>Sample data\<close>

text \<open>
  A small shop for the concrete evaluations below: two products, and a pattern engine that
  reads every pattern as literal text and compares without regard to case.
\<close>

definition nike :: product_doc where
  "nike = \<lparr> product_doc.id' = ''p1'', name = ''Nike Air Max 270'', price = 10,
            sizes = [\<lparr> size' = ''US 7'', quantity = 10 \<rparr>], created_at = 0, updated_at = 0 \<rparr>"

definition puma :: product_doc where
  "puma = \<lparr> product_doc.id' = ''p2'', name = ''Puma RS-X'', price = 5,
            sizes = [\<lparr> size' = ''US 8'', quantity = 4 \<rparr>], created_at = 1, updated_at = 1 \<rparr>"

definition shop :: database where
  "shop = \<lparr> products_collection = [nike, puma], orders_collection = [] \<rparr>"

definition literal_engine :: regex_engine where
  "literal_engine pattern options = Some (icontains pattern)"

text \<open>
  The same shop with three orders. The second order names a product \<^verbatim>\<open>gone\<close> that the
  product collection does not hold.
\<close>

definition order_a :: order_doc where
  "order_a = \<lparr> order_doc.id' = ''o1'', userId = ''user_1'',
               items = [\<lparr> productId = ''p1'', qty = 2 \<rparr>, \<lparr> productId = ''p2'', qty = 1 \<rparr>],
               total' = 25, created_at = 2, updated_at = 2 \<rparr>"

definition order_b :: order_doc where
  "order_b = \<lparr> order_doc.id' = ''o2'', userId = ''user_1'',
               items = [\<lparr> productId = ''gone'', qty = 3 \<rparr>, \<lparr> productId = ''p2'', qty = 4 \<rparr>],
               total' = 99, created_at = 3, updated_at = 3 \<rparr>"

definition order_c :: order_doc where
  "order_c = \<lparr> order_doc.id' = ''o3'', userId = ''user_2'',
               items = [\<lparr> productId = ''p1'', qty = 3 \<rparr>],
               total' = 30, created_at = 4, updated_at = 4 \<rparr>"

definition shop_with_orders :: database where
  "shop_with_orders = \<lparr> products_collection = [nike, puma], orders_collection = [order_a, order_b, order_c] \<rparr>"

text \<open>
  Four create-order requests: one that names the same product twice, one that names a
  product twice among others, the example of the specification, and one with a negative
  quantity.
\<close>

definition repeated_order :: OrderCreate where
  "repeated_order = \<lparr> OrderCreate.userId = ''user_1'',
       items = [\<lparr> productId = ''p1'', qty = 2 \<rparr>, \<lparr> productId = ''p1'', qty = 1 \<rparr>] \<rparr>"

definition mixed_order :: OrderCreate where
  "mixed_order = \<lparr> OrderCreate.userId = ''user_1'',
       items = [\<lparr> productId = ''p1'', qty = 2 \<rparr>, \<lparr> productId = ''p2'', qty = 1 \<rparr>,
                \<lparr> productId = ''p1'', qty = 1 \<rparr>] \<rparr>"



section \<open>What a response of a list operation is\<close>

lemma pagination_simps:
  "PaginationInfo.next (pagination offset_q limit_q total_count n) =
     (if offset_q + limit_q < total_count then Some (str_int (offset_q + limit_q)) else None)"
  "limit (pagination offset_q limit_q total_count n) = int n"
  "previous (pagination offset_q limit_q total_count n) =
     (if 0 < offset_q then Some (offset_q - limit_q) else None)"
  by (simp_all add: pagination_def)

lemma list_products_Inr:
  assumes "list_products rx db name_q size_q limit_q offset_q = Inr r"
  shows "1 \<le> limit_q \<and> limit_q \<le> 100 \<and> 0 \<le> offset_q \<and>
         (\<exists>m. compile_query rx (build_filter_query name_q size_q) = Some m \<and>
              ProductListResponse.data r =
                map product_list_item (skip_limit offset_q limit_q (filter m (products_collection db))) \<and>
              ProductListResponse.page r =
                pagination offset_q limit_q (int (length (filter m (products_collection db))))
                  (length (skip_limit offset_q limit_q (filter m (products_collection db)))))"
  using assms
  by (auto simp: list_products_def run_list_products_def count_documents_def find_docs_def
      split: if_splits option.splits)

lemma list_orders_Inr:
  assumes "list_orders db user_id limit_q offset_q = Inr r"
  shows "1 \<le> limit_q \<and> limit_q \<le> 100 \<and> 0 \<le> offset_q \<and>
     OrderListResponse.data r = map (order_list_item (products_collection db))
        (skip_limit offset_q limit_q (filter (\<lambda>order. order_doc.userId order = user_id) (orders_collection db))) \<and>
     OrderListResponse.page r = pagination offset_q limit_q
        (int (length (filter (\<lambda>order. order_doc.userId order = user_id) (orders_collection db))))
        (length (skip_limit offset_q limit_q
           (filter (\<lambda>order. order_doc.userId order = user_id) (orders_collection db))))"
  using assms
  by (auto simp: list_orders_def Let_def split: if_splits)

lemma shop_first_page:
  "list_products literal_engine shop None None 1 0 =
     Inr \<lparr> ProductListResponse.data =
             [\<lparr> ProductListItem.id' = ''p1'', name = ''Nike Air Max 270'', price = 10 \<rparr>],
           page = \<lparr> next = Some ''1'', limit = 1, previous = None \<rparr> \<rparr>"
  by (simp add: list_products_def run_list_products_def build_filter_query_def count_documents_def
      find_docs_def compile_query_def sizes_size_matches_def skip_limit_def pagination_def shop_def
      product_list_item_def nike_def puma_def str_int_def str_nat.simps digit_char_def)


text \<open>The decimal text of a number that is not negative reads back as that number.\<close>

lemma digit_val_digit_char: "d < 10 \<Longrightarrow> digit_val (digit_char d) = d"
proof -
  assume "d < 10"
  then have "d \<in> set [0..<10]" by simp
  then show ?thesis
    unfolding digit_val_def digit_char_def
    by (simp add: upt_rec) (elim disjE; simp)
qed

lemma nat_of_digits_snoc: "nat_of_digits (s @ [c]) = 10 * nat_of_digits s + digit_val c"
  by (simp add: nat_of_digits_def)

lemma nat_of_digits_str_nat: "nat_of_digits (str_nat n) = n"
proof (induction n rule: str_nat.induct)
  case (1 n)
  show ?case
  proof (cases "n < 10")
    case True
    then show ?thesis
      using digit_val_digit_char [of n] by (simp add: str_nat.simps [of n] nat_of_digits_def)
  next
    case False
    then have "nat_of_digits (str_nat n) = 10 * (n div 10) + n mod 10"
      using 1 digit_val_digit_char [of "n mod 10"]
      by (simp add: str_nat.simps [of n] nat_of_digits_snoc)
    then show ?thesis by simp
  qed
qed

lemma nat_of_digits_str_int: "0 \<le> i \<Longrightarrow> int (nat_of_digits (str_int i)) = i"
  by (simp add: str_int_def nat_of_digits_str_nat)


lemma find_one_None_iff: "find_one coll pid = None \<longleftrightarrow> pid \<notin> product_doc.id' ` set coll"
  by (auto simp: find_one_def find_None_iff)

lemma order_items_loop_eq:
  "order_items_loop coll its acc = acc @ List.map_filter (\<lambda>item. map_option (\<lambda>product.
     \<lparr> productDetails = \<lparr> ProductDetails.name = product_doc.name product, id' = product_doc.id' product \<rparr>,
       qty = OrderItem.qty item \<rparr>) (find_one coll (productId item))) its"
  by (induction its arbitrary: acc) (auto simp: map_filter_simps split: option.splits)

text \<open>Concrete answers of the sample shop.\<close>

lemma shop_orders_first_page:
  "list_orders shop_with_orders ''user_1'' 1 0 =
     Inr \<lparr> OrderListResponse.data =
             [\<lparr> OrderListItem.id' = ''o1'',
                items = [\<lparr> productDetails = \<lparr> ProductDetails.name = ''Nike Air Max 270'', id' = ''p1'' \<rparr>, qty = 2 \<rparr>,
                         \<lparr> productDetails = \<lparr> ProductDetails.name = ''Puma RS-X'', id' = ''p2'' \<rparr>, qty = 1 \<rparr>],
                total' = 25 \<rparr>],
           page = \<lparr> next = Some ''1'', limit = 1, previous = None \<rparr> \<rparr>"
  by (simp add: list_orders_def skip_limit_def pagination_def shop_with_orders_def order_list_item_def
      order_a_def order_b_def order_c_def find_one_def nike_def puma_def str_int_def str_nat.simps
      digit_char_def)

lemma shop_orders_all:
  "list_orders shop_with_orders ''user_1'' 10 0 =
     Inr \<lparr> OrderListResponse.data =
             [\<lparr> OrderListItem.id' = ''o1'',
                items = [\<lparr> productDetails = \<lparr> ProductDetails.name = ''Nike Air Max 270'', id' = ''p1'' \<rparr>, qty = 2 \<rparr>,
                         \<lparr> productDetails = \<lparr> ProductDetails.name = ''Puma RS-X'', id' = ''p2'' \<rparr>, qty = 1 \<rparr>],
                total' = 25 \<rparr>,
              \<lparr> OrderListItem.id' = ''o2'',
                items = [\<lparr> productDetails = \<lparr> ProductDetails.name = ''Puma RS-X'', id' = ''p2'' \<rparr>, qty = 4 \<rparr>],
                total' = 99 \<rparr>],
           page = \<lparr> next = None, limit = 2, previous = None \<rparr> \<rparr>"
  by (simp add: list_orders_def skip_limit_def pagination_def shop_with_orders_def order_list_item_def
      order_a_def order_b_def order_c_def find_one_def nike_def puma_def)

lemma shop_with_orders_first_page:
  "list_products literal_engine shop_with_orders None None 1 0 =
     Inr \<lparr> ProductListResponse.data =
             [\<lparr> ProductListItem.id' = ''p1'', name = ''Nike Air Max 270'', price = 10 \<rparr>],
           page = \<lparr> next = Some ''1'', limit = 1, previous = None \<rparr> \<rparr>"
  by (simp add: list_products_def run_list_products_def build_filter_query_def count_documents_def
      find_docs_def compile_query_def sizes_size_matches_def skip_limit_def pagination_def
      shop_with_orders_def product_list_item_def nike_def puma_def str_int_def str_nat.simps
      digit_char_def)

text \<open>
  On the wire \<^verbatim>\<open>next\<close> is a text or \<^verbatim>\<open>null\<close>, and \<^verbatim>\<open>previous\<close> is a number or \<^verbatim>\<open>null\<close>.
\<close>

lemma pagination_json:
  "next_json (pagination offset_q limit_q total_count n) =
     (if offset_q + limit_q < total_count then JString (str_int (offset_q + limit_q)) else JNull)"
  "previous_json (pagination offset_q limit_q total_count n) =
     (if 0 < offset_q then JNumber (offset_q - limit_q) else JNull)"
  by (simp_all add: next_json_def previous_json_def pagination_simps)

text \<open>
  Create-product appends one document under the identifier it was handed; a fresh identifier
  keeps the identifiers of the collection pairwise different.
\<close>

lemma create_product_keeps_ids_distinct:
  assumes "create_product db product_id now1 now2 product = Inr (db', resp)"
      and "distinct (map product_doc.id' (products_collection db))"
      and "product_id \<notin> product_doc.id' ` set (products_collection db)"
  shows "distinct (map product_doc.id' (products_collection db')) \<and>
         ProductResponse.id' resp = product_id \<and>
         find_one (products_collection db') product_id \<noteq> None \<and>
         orders_collection db' = orders_collection db"
  using assms
  by (auto simp: create_product_def insert_one_def find_one_def find_None_iff)

section \<open>Pagination\<close>

text \<open>
  C4. In every response of either list operation, \<^verbatim>\<open>page.previous\<close> is \<open>offset - limit\<close>
  when the offset is positive and is absent when the offset is zero (a response exists only
  for an offset that is not negative). The value is not clamped: it is negative whenever
  the offset is positive and smaller than the limit.
\<close>

theorem page_previous:
  "(list_products rx db name_q size_q limit_q offset_q = Inr r \<longrightarrow>
      0 \<le> offset_q \<and>
      (0 < offset_q \<longrightarrow> previous (ProductListResponse.page r) = Some (offset_q - limit_q)) \<and>
      (offset_q = 0 \<longrightarrow> previous (ProductListResponse.page r) = None) \<and>
      (0 < offset_q \<and> offset_q < limit_q \<longrightarrow>
         (\<exists>v. previous (ProductListResponse.page r) = Some v \<and> v < 0))) \<and>
   (list_orders db user_id limit_q offset_q = Inr r' \<longrightarrow>
      0 \<le> offset_q \<and>
      (0 < offset_q \<longrightarrow> previous (OrderListResponse.page r') = Some (offset_q - limit_q)) \<and>
      (offset_q = 0 \<longrightarrow> previous (OrderListResponse.page r') = None) \<and>
      (0 < offset_q \<and> offset_q < limit_q \<longrightarrow>
         (\<exists>v. previous (OrderListResponse.page r') = Some v \<and> v < 0)))"
proof (intro conjI impI)
  assume a: "list_products rx db name_q size_q limit_q offset_q = Inr r"
  from list_products_Inr [OF a] obtain m where
    p: "ProductListResponse.page r =
          pagination offset_q limit_q (int (length (filter m (products_collection db))))
            (length (skip_limit offset_q limit_q (filter m (products_collection db))))"
    and o: "0 \<le> offset_q" by blast
  show "0 \<le> offset_q" by (rule o)
  show "previous (ProductListResponse.page r) = Some (offset_q - limit_q)" if "0 < offset_q"
    using that by (simp add: p pagination_simps)
  show "previous (ProductListResponse.page r) = None" if "offset_q = 0"
    using that by (simp add: p pagination_simps)
  show "\<exists>v. previous (ProductListResponse.page r) = Some v \<and> v < 0"
    if "0 < offset_q \<and> offset_q < limit_q"
    using that by (simp add: p pagination_simps)
next
  assume a: "list_orders db user_id limit_q offset_q = Inr r'"
  note b = list_orders_Inr [OF a]
  from b show "0 \<le> offset_q" by blast
  show "previous (OrderListResponse.page r') = Some (offset_q - limit_q)" if "0 < offset_q"
    using that b by (simp add: pagination_simps)
  show "previous (OrderListResponse.page r') = None" if "offset_q = 0"
    using that b by (simp add: pagination_simps)
  show "\<exists>v. previous (OrderListResponse.page r') = Some v \<and> v < 0"
    if "0 < offset_q \<and> offset_q < limit_q"
    using that b by (simp add: pagination_simps)
qed

text \<open>With limit 10 and offset 5 both operations answer, and \<^verbatim>\<open>previous\<close> is \<open>-5\<close>.\<close>

theorem page_previous_witness:
  "list_products literal_engine shop None None 10 5 =
     Inr \<lparr> ProductListResponse.data = [], page = \<lparr> next = None, limit = 0, previous = Some (- 5) \<rparr> \<rparr> \<and>
   list_orders shop ''user_1'' 10 5 =
     Inr \<lparr> OrderListResponse.data = [], page = \<lparr> next = None, limit = 0, previous = Some (- 5) \<rparr> \<rparr> \<and>
   (\<exists>v. previous \<lparr> next = None, limit = 0, previous = Some (- 5) \<rparr> = Some v \<and> v < 0)"
proof -
  let ?p = "\<lparr> next = None, limit = 0, previous = Some (- 5) \<rparr>"
  have h1: "list_products literal_engine shop None None 10 5 =
              Inr \<lparr> ProductListResponse.data = [], page = ?p \<rparr>"
    by (simp add: list_products_def run_list_products_def build_filter_query_def count_documents_def
        find_docs_def compile_query_def sizes_size_matches_def skip_limit_def pagination_def shop_def)
  have h2: "list_orders shop ''user_1'' 10 5 = Inr \<lparr> OrderListResponse.data = [], page = ?p \<rparr>"
    by (simp add: list_orders_def skip_limit_def pagination_def shop_def)
  from page_previous [of literal_engine shop None None 10 5
      "\<lparr> ProductListResponse.data = [], page = ?p \<rparr>"
      "''user_1''" "\<lparr> OrderListResponse.data = [], page = ?p \<rparr>"] h1 h2
  show ?thesis by simp
qed

text \<open>
  C5. For a limit from 1 to 100 and an offset that is not negative, every response of
  list-products holds at most \<open>limit\<close> items and its \<^verbatim>\<open>page.limit\<close> is the number of items
  returned; list-products does answer when the store accepts the query; list-orders always
  answers, with at most \<open>limit\<close> orders and \<^verbatim>\<open>page.limit\<close> the number of orders returned.
\<close>

theorem page_limit_is_length:
  assumes "1 \<le> limit_q" and "limit_q \<le> 100" and "0 \<le> offset_q"
  shows "(\<forall>r. list_products rx db name_q size_q limit_q offset_q = Inr r \<longrightarrow>
            int (length (ProductListResponse.data r)) \<le> limit_q \<and>
            limit (ProductListResponse.page r) = int (length (ProductListResponse.data r))) \<and>
         (compile_query rx (build_filter_query name_q size_q) \<noteq> None \<longrightarrow>
            (\<exists>r. list_products rx db name_q size_q limit_q offset_q = Inr r)) \<and>
         (\<exists>r'. list_orders db user_id limit_q offset_q = Inr r' \<and>
            int (length (OrderListResponse.data r')) \<le> limit_q \<and>
            limit (OrderListResponse.page r') = int (length (OrderListResponse.data r')))"
proof (intro conjI allI impI)
  fix r assume a: "list_products rx db name_q size_q limit_q offset_q = Inr r"
  from list_products_Inr [OF a] obtain m where
    d: "ProductListResponse.data r =
          map product_list_item (skip_limit offset_q limit_q (filter m (products_collection db)))"
    and p: "ProductListResponse.page r =
          pagination offset_q limit_q (int (length (filter m (products_collection db))))
            (length (skip_limit offset_q limit_q (filter m (products_collection db))))"
    by blast
  show "int (length (ProductListResponse.data r)) \<le> limit_q"
    using assms by (simp add: d skip_limit_def)
  show "limit (ProductListResponse.page r) = int (length (ProductListResponse.data r))"
    by (simp add: d p pagination_simps)
next
  assume "compile_query rx (build_filter_query name_q size_q) \<noteq> None"
  then show "\<exists>r. list_products rx db name_q size_q limit_q offset_q = Inr r"
    using assms
    by (auto simp: list_products_def run_list_products_def count_documents_def find_docs_def)
next
  let ?found = "filter (\<lambda>order. order_doc.userId order = user_id) (orders_collection db)"
  let ?r = "\<lparr> OrderListResponse.data =
               map (order_list_item (products_collection db)) (skip_limit offset_q limit_q ?found),
             page = pagination offset_q limit_q (int (length ?found))
               (length (skip_limit offset_q limit_q ?found)) \<rparr>"
  have "list_orders db user_id limit_q offset_q = Inr ?r"
    using assms by (simp add: list_orders_def Let_def)
  moreover have "int (length (OrderListResponse.data ?r)) \<le> limit_q"
    using assms by (simp add: skip_limit_def)
  moreover have "limit (OrderListResponse.page ?r) = int (length (OrderListResponse.data ?r))"
    by (simp add: pagination_simps)
  ultimately show "\<exists>r'. list_orders db user_id limit_q offset_q = Inr r' \<and>
            int (length (OrderListResponse.data r')) \<le> limit_q \<and>
            limit (OrderListResponse.page r') = int (length (OrderListResponse.data r'))"
    by blast
qed

text \<open>
  With limit 1 the shop of two products answers with one product and \<^verbatim>\<open>page.limit\<close> 1.
\<close>

theorem page_limit_is_length_witness:
  "(1::int) \<le> 1 \<and> (1::int) \<le> 100 \<and> (0::int) \<le> 0 \<and>
   list_products literal_engine shop None None 1 0 =
     Inr \<lparr> ProductListResponse.data =
             [\<lparr> ProductListItem.id' = ''p1'', name = ''Nike Air Max 270'', price = 10 \<rparr>],
           page = \<lparr> next = Some ''1'', limit = 1, previous = None \<rparr> \<rparr> \<and>
   limit \<lparr> next = Some ''1'', limit = 1, previous = None \<rparr> =
     int (length [\<lparr> ProductListItem.id' = ''p1'', name = ''Nike Air Max 270'', price = 10 \<rparr>]) \<and>
   (\<exists>r'. list_orders shop ''user_1'' 1 0 = Inr r' \<and>
      int (length (OrderListResponse.data r')) \<le> 1 \<and>
      limit (OrderListResponse.page r') = int (length (OrderListResponse.data r')))"
proof -
  have b: "(1::int) \<le> 1" "(1::int) \<le> 100" "(0::int) \<le> 0" by simp_all
  note t = page_limit_is_length [OF b, of literal_engine shop None None "''user_1''"]
  from t shop_first_page show ?thesis by simp
qed

text \<open>
  C3, as claimed: when \<^verbatim>\<open>page.next\<close> is present its value is the number \<open>offset + limit\<close>.
  The field is declared \<^verbatim>\<open>Optional[str]\<close> and filled with \<^verbatim>\<open>str(next_offset)\<close>: for limit 1
  and offset 0 over two products the response carries the text \<^verbatim>\<open>"1"\<close>, which is not the
  number 1.
\<close>

theorem page_next_number_counterexample:
  "list_products literal_engine shop None None 1 0 =
     Inr \<lparr> ProductListResponse.data =
             [\<lparr> ProductListItem.id' = ''p1'', name = ''Nike Air Max 270'', price = 10 \<rparr>],
           page = \<lparr> next = Some ''1'', limit = 1, previous = None \<rparr> \<rparr> \<and>
   next_json \<lparr> next = Some ''1'', limit = 1, previous = None \<rparr> = JString ''1'' \<and>
   JString ''1'' \<noteq> JNumber (0 + 1)"
  by (simp add: shop_first_page next_json_def)

text \<open>
  C3, amended. In every response of either list operation, \<^verbatim>\<open>page.next\<close> is present exactly
  when \<open>offset + limit\<close> is smaller than the number of matching documents, and when present
  it is the decimal text of \<open>offset + limit\<close>, a string that reads back as that number.
\<close>

theorem page_next:
  "(list_products rx db name_q size_q limit_q offset_q = Inr r \<longrightarrow>
      (\<exists>total_count.
         count_documents rx (products_collection db) (build_filter_query name_q size_q) = Some total_count \<and>
         PaginationInfo.next (ProductListResponse.page r) =
           (if offset_q + limit_q < int total_count then Some (str_int (offset_q + limit_q)) else None)) \<and>
      int (nat_of_digits (str_int (offset_q + limit_q))) = offset_q + limit_q) \<and>
   (list_orders db user_id limit_q offset_q = Inr r' \<longrightarrow>
      PaginationInfo.next (OrderListResponse.page r') =
        (if offset_q + limit_q <
            int (length (filter (\<lambda>order. order_doc.userId order = user_id) (orders_collection db)))
         then Some (str_int (offset_q + limit_q)) else None) \<and>
      int (nat_of_digits (str_int (offset_q + limit_q))) = offset_q + limit_q)"
proof (intro conjI impI)
  assume a: "list_products rx db name_q size_q limit_q offset_q = Inr r"
  from list_products_Inr [OF a] obtain m where
    c: "compile_query rx (build_filter_query name_q size_q) = Some m"
    and p: "ProductListResponse.page r =
          pagination offset_q limit_q (int (length (filter m (products_collection db))))
            (length (skip_limit offset_q limit_q (filter m (products_collection db))))"
    and b: "1 \<le> limit_q" "0 \<le> offset_q" by blast
  show "\<exists>total_count.
         count_documents rx (products_collection db) (build_filter_query name_q size_q) = Some total_count \<and>
         PaginationInfo.next (ProductListResponse.page r) =
           (if offset_q + limit_q < int total_count then Some (str_int (offset_q + limit_q)) else None)"
    by (simp add: count_documents_def c p pagination_simps)
  show "int (nat_of_digits (str_int (offset_q + limit_q))) = offset_q + limit_q"
    using b by (simp add: nat_of_digits_str_int)
next
  assume a: "list_orders db user_id limit_q offset_q = Inr r'"
  note b = list_orders_Inr [OF a]
  show "PaginationInfo.next (OrderListResponse.page r') =
        (if offset_q + limit_q <
            int (length (filter (\<lambda>order. order_doc.userId order = user_id) (orders_collection db)))
         then Some (str_int (offset_q + limit_q)) else None)"
    using b by (simp add: pagination_simps)
  show "int (nat_of_digits (str_int (offset_q + limit_q))) = offset_q + limit_q"
    using b by (simp add: nat_of_digits_str_int)
qed

text \<open>Limit 1 and offset 0 on the sample shop: both operations answer with \<^verbatim>\<open>next\<close> \<^verbatim>\<open>"1"\<close>.\<close>

theorem page_next_witness:
  "list_products literal_engine shop_with_orders None None 1 0 =
     Inr \<lparr> ProductListResponse.data =
             [\<lparr> ProductListItem.id' = ''p1'', name = ''Nike Air Max 270'', price = 10 \<rparr>],
           page = \<lparr> next = Some ''1'', limit = 1, previous = None \<rparr> \<rparr> \<and>
   list_orders shop_with_orders ''user_1'' 1 0 =
     Inr \<lparr> OrderListResponse.data =
             [\<lparr> OrderListItem.id' = ''o1'',
                items = [\<lparr> productDetails = \<lparr> ProductDetails.name = ''Nike Air Max 270'', id' = ''p1'' \<rparr>, qty = 2 \<rparr>,
                         \<lparr> productDetails = \<lparr> ProductDetails.name = ''Puma RS-X'', id' = ''p2'' \<rparr>, qty = 1 \<rparr>],
                total' = 25 \<rparr>],
           page = \<lparr> next = Some ''1'', limit = 1, previous = None \<rparr> \<rparr> \<and>
   int (nat_of_digits (str_int (0 + 1))) = 0 + 1"
proof -
  note a = page_next [of literal_engine shop_with_orders None None 1 0 _ "''user_1''" _,
      THEN conjunct2, rule_format, OF shop_orders_first_page]
  from a shop_with_orders_first_page shop_orders_first_page show ?thesis by simp
qed

section \<open>Filters\<close>















lemma shop_puma_US8:
  "list_products literal_engine shop (Some ''puma'') (Some ''US 8'') 10 0 =
     Inr \<lparr> ProductListResponse.data =
             [\<lparr> ProductListItem.id' = ''p2'', name = ''Puma RS-X'', price = 5 \<rparr>],
           page = \<lparr> next = None, limit = 1, previous = None \<rparr> \<rparr>"
  by code_simp

lemma shop_nike_US8:
  "list_products literal_engine shop (Some ''nike'') (Some ''US 8'') 10 0 =
     Inr \<lparr> ProductListResponse.data = [],
           page = \<lparr> next = None, limit = 0, previous = None \<rparr> \<rparr>"
  by code_simp






text \<open>
  C10. A name or a size given as the empty text is treated as absent: no condition is put
  into the query for it, and the answer is that of the same request without the parameter.
\<close>

theorem empty_filter_text_is_no_filter:
  "build_filter_query (Some []) size_q = build_filter_query None size_q \<and>
   build_filter_query name_q (Some []) = build_filter_query name_q None \<and>
   list_products rx db (Some []) size_q limit_q offset_q =
     list_products rx db None size_q limit_q offset_q \<and>
   list_products rx db name_q (Some []) limit_q offset_q =
     list_products rx db name_q None limit_q offset_q"
proof -
  have n: "build_filter_query (Some []) size_q = build_filter_query None size_q"
    by (simp add: build_filter_query_def)
  have s: "build_filter_query name_q (Some []) = build_filter_query name_q None"
    by (simp add: build_filter_query_def)
  show ?thesis
    by (simp add: list_products_def n s)
qed

section \<open>Create order\<close>

text \<open>
  What create-order does. The loop over the items adds one term per item; when the order is
  stored, every item's product was found, the stored total is that sum, and the items are
  stored as given.
\<close>

lemma find_filter:
  "(\<And>x. P x \<Longrightarrow> Q x) \<Longrightarrow> List.find P (filter Q xs) = List.find P xs"
  by (induction xs) auto



lemma order_total_defined:
  assumes "\<forall>item\<in>set its. List.find (\<lambda>p. product_doc.id' p = productId item) ex \<noteq> None"
  shows "\<exists>t. order_total ex its acc = Inr t"
  using assms
  by (induction its arbitrary: acc) (auto split: option.splits)

lemma existing_find:
  assumes "item \<in> set its"
  shows "List.find (\<lambda>p. product_doc.id' p = productId item)
           (filter (\<lambda>p. product_doc.id' p \<in> set (map productId its)) coll) =
         find_one coll (productId item)"
  unfolding find_one_def using assms by (intro find_filter) auto


text \<open>
  The guard of line 203 compares the number of fetched documents with the number of items.
  When no two products share an id, the guard passes exactly when the items name pairwise
  different ids that are all in the collection; otherwise the request is refused with status
  400 and the list of the items' ids that are not in the collection, one per occurrence.
\<close>

lemma length_existing:
  assumes "distinct (map product_doc.id' coll)"
  shows "length (filter (\<lambda>p. product_doc.id' p \<in> A) coll) = card (A \<inter> product_doc.id' ` set coll)"
proof -
  let ?ids = "filter (\<lambda>i. i \<in> A) (map product_doc.id' coll)"
  have m: "?ids = map product_doc.id' (filter (\<lambda>p. product_doc.id' p \<in> A) coll)"
    by (simp add: filter_map comp_def)
  have "distinct ?ids" using assms by (rule distinct_filter)
  then have "card (set ?ids) = length ?ids" by (rule distinct_card)
  moreover have "set ?ids = A \<inter> product_doc.id' ` set coll" by auto
  moreover have "length ?ids = length (filter (\<lambda>p. product_doc.id' p \<in> A) coll)"
    unfolding m by (rule length_map)
  ultimately show ?thesis by simp
qed

lemma guard_iff:
  assumes "distinct (map product_doc.id' coll)"
  shows "length (filter (\<lambda>p. product_doc.id' p \<in> set pids) coll) = length pids \<longleftrightarrow>
         distinct pids \<and> set pids \<subseteq> product_doc.id' ` set coll"
proof -
  let ?I = "product_doc.id' ` set coll"
  have a: "card (set pids \<inter> ?I) \<le> card (set pids)"
    by (simp add: card_mono)
  have b: "card (set pids) \<le> length pids"
    by (rule card_length)
  have c: "card (set pids \<inter> ?I) = card (set pids) \<longleftrightarrow> set pids \<subseteq> ?I"
  proof
    assume "card (set pids \<inter> ?I) = card (set pids)"
    then have "set pids \<inter> ?I = set pids"
      by (intro card_subset_eq) auto
    then show "set pids \<subseteq> ?I" by blast
  next
    assume "set pids \<subseteq> ?I"
    then have "set pids \<inter> ?I = set pids" by blast
    then show "card (set pids \<inter> ?I) = card (set pids)" by simp
  qed
  have d: "card (set pids) = length pids \<longleftrightarrow> distinct pids"
    using card_distinct distinct_card by blast
  show ?thesis
    unfolding length_existing [OF assms] using a b c d by linarith
qed

lemma create_order_cases:
  assumes "distinct (map product_doc.id' (products_collection db))"
  shows "(distinct (map productId (OrderCreate.items order)) \<and>
          set (map productId (OrderCreate.items order)) \<subseteq> product_doc.id' ` set (products_collection db) \<longrightarrow>
            (\<exists>db' resp. create_order db order_id now1 now2 order = Inr (db', resp))) \<and>
         (\<not> (distinct (map productId (OrderCreate.items order)) \<and>
          set (map productId (OrderCreate.items order)) \<subseteq> product_doc.id' ` set (products_collection db)) \<longrightarrow>
            create_order db order_id now1 now2 order =
              Inl (HTTPException 400 (Products_not_found
                (filter (\<lambda>pid. pid \<notin> product_doc.id' ` set (products_collection db))
                   (map productId (OrderCreate.items order))))))"
proof (intro conjI impI)
  let ?its = "OrderCreate.items order"
  let ?pids = "map productId ?its"
  let ?coll = "products_collection db"
  let ?ex = "filter (\<lambda>p. product_doc.id' p \<in> set ?pids) ?coll"
  note g = guard_iff [OF assms, of ?pids]
  {
    assume ok: "distinct ?pids \<and> set ?pids \<subseteq> product_doc.id' ` set ?coll"
    then have len: "length ?ex = length ?pids" using g by simp
    have "\<forall>item\<in>set ?its. List.find (\<lambda>p. product_doc.id' p = productId item) ?ex \<noteq> None"
    proof
      fix item assume i: "item \<in> set ?its"
      then have "productId item \<in> product_doc.id' ` set ?coll" using ok by auto
      then have "find_one ?coll (productId item) \<noteq> None" by (simp add: find_one_None_iff)
      then show "List.find (\<lambda>p. product_doc.id' p = productId item) ?ex \<noteq> None"
        using existing_find [OF i, of ?coll] by simp
    qed
    from order_total_defined [OF this, of 0] obtain t where "order_total ?ex ?its 0 = Inr t" ..
    then show "\<exists>db' resp. create_order db order_id now1 now2 order = Inr (db', resp)"
      using len by (simp add: create_order_def Let_def)
  }
  {
    assume bad: "\<not> (distinct ?pids \<and> set ?pids \<subseteq> product_doc.id' ` set ?coll)"
    then have len: "length ?ex \<noteq> length ?pids" using g by simp
    have "pid \<in> set (map product_doc.id' ?ex) \<longleftrightarrow> pid \<in> product_doc.id' ` set ?coll"
      if "pid \<in> set ?pids" for pid
      using that by force
    then have "filter (\<lambda>pid. pid \<notin> set (map product_doc.id' ?ex)) ?pids =
          filter (\<lambda>pid. pid \<notin> product_doc.id' ` set ?coll) ?pids"
      by (intro filter_cong) simp_all
    then show "create_order db order_id now1 now2 order =
              Inl (HTTPException 400 (Products_not_found
                (filter (\<lambda>pid. pid \<notin> product_doc.id' ` set ?coll) ?pids)))"
      using len by (simp add: create_order_def Let_def)
  }
qed


lemma create_order_repeated_missing_reported_twice:
  "create_order shop ''o9'' 7 8
     \<lparr> OrderCreate.userId = ''user_1'',
       items = [\<lparr> productId = ''zz'', qty = 2 \<rparr>, \<lparr> productId = ''zz'', qty = 1 \<rparr>] \<rparr> =
   Inl (HTTPException 400 (Products_not_found [''zz'', ''zz'']))"
  by (simp add: create_order_def shop_def nike_def puma_def)

text \<open>
  C1. The claim: create-order fails exactly when some referenced id is absent, so a request
  that repeats an existing product id succeeds. The code at that input: the shop holds the
  product \<^verbatim>\<open>p1\<close>, the request names \<^verbatim>\<open>p1\<close> twice, and the answer is status 400 with an empty
  list of missing ids.
\<close>

theorem create_order_rejects_repeated_product:
  "find_one (products_collection shop) ''p1'' = Some nike \<and>
   create_order shop ''o9'' 7 8 repeated_order = Inl (HTTPException 400 (Products_not_found []))"
  by (simp add: create_order_def find_one_def shop_def repeated_order_def nike_def puma_def)

text \<open>
  C2. The claim: when all referenced products exist, the stored total is the sum over all
  items, repeated ids counted once per item. The code at an input that repeats an id: every
  item's product exists, the sum of price times quantity is 35, and no order is stored; the
  answer is status 400.
\<close>

theorem create_order_stores_no_total_for_repeated_product:
  "list_all (\<lambda>item. find_one (products_collection shop) (productId item) \<noteq> None) (OrderCreate.items mixed_order) \<and>
   (\<Sum>item\<leftarrow>OrderCreate.items mixed_order.
      case find_one (products_collection shop) (productId item) of
        None \<Rightarrow> 0
      | Some product \<Rightarrow> product_doc.price product * real_of_int (OrderItem.qty item)) = 35 \<and>
   create_order shop ''o9'' 7 8 mixed_order = Inl (HTTPException 400 (Products_not_found []))"
  by (simp add: create_order_def find_one_def shop_def mixed_order_def nike_def puma_def)




section \<open>List orders\<close>

text \<open>
  C8. For a limit from 1 to 100 and an offset that is not negative, list-orders answers, and
  each returned order carries its stored id, its stored total, and, in the order of its
  items, one entry for each item whose product is found, made of that product's name and id
  and the item's quantity. An item whose product is not found contributes no entry and does
  not make the request fail.
\<close>

theorem list_orders_enrichment:
  assumes "1 \<le> limit_q" and "limit_q \<le> 100" and "0 \<le> offset_q"
  shows "\<exists>r. list_orders db user_id limit_q offset_q = Inr r \<and>
           OrderListResponse.data r =
             map (\<lambda>order.
                    \<lparr> OrderListItem.id' = order_doc.id' order,
                      items = List.map_filter
                        (\<lambda>item. map_option
                           (\<lambda>product.
                              \<lparr> productDetails = \<lparr> ProductDetails.name = product_doc.name product,
                                                    id' = product_doc.id' product \<rparr>,
                                qty = OrderItem.qty item \<rparr>)
                           (find_one (products_collection db) (productId item)))
                        (order_doc.items order),
                      total' = order_doc.total' order \<rparr>)
                 (skip_limit offset_q limit_q
                    (filter (\<lambda>order. order_doc.userId order = user_id) (orders_collection db)))"
  using assms
  by (simp add: list_orders_def Let_def order_list_item_def order_items_loop_eq)

text \<open>
  The sample shop: the second order of \<^verbatim>\<open>user_1\<close> loses its item on the product \<^verbatim>\<open>gone\<close> and
  keeps its stored total 99.
\<close>

theorem list_orders_enrichment_witness:
  "(1::int) \<le> 10 \<and> (10::int) \<le> 100 \<and> (0::int) \<le> 0 \<and>
   list_orders shop_with_orders ''user_1'' 10 0 =
     Inr \<lparr> OrderListResponse.data =
             [\<lparr> OrderListItem.id' = ''o1'',
                items = [\<lparr> productDetails = \<lparr> ProductDetails.name = ''Nike Air Max 270'', id' = ''p1'' \<rparr>, qty = 2 \<rparr>,
                         \<lparr> productDetails = \<lparr> ProductDetails.name = ''Puma RS-X'', id' = ''p2'' \<rparr>, qty = 1 \<rparr>],
                total' = 25 \<rparr>,
              \<lparr> OrderListItem.id' = ''o2'',
                items = [\<lparr> productDetails = \<lparr> ProductDetails.name = ''Puma RS-X'', id' = ''p2'' \<rparr>, qty = 4 \<rparr>],
                total' = 99 \<rparr>],
           page = \<lparr> next = None, limit = 2, previous = None \<rparr> \<rparr> \<and>
   find_one (products_collection shop_with_orders) ''gone'' = None"
proof -
  have b: "(1::int) \<le> 10" "(10::int) \<le> 100" "(0::int) \<le> 0" by simp_all
  have g: "find_one (products_collection shop_with_orders) ''gone'' = None"
    by (simp add: find_one_def shop_with_orders_def nike_def puma_def)
  from list_orders_enrichment [OF b, of shop_with_orders "''user_1''"] shop_orders_all g
  show ?thesis by simp
qed

end
